theory Spec2Isabelle
  imports Main "HOL-Library.AList"
begin

section \<open>The B+ tree index of \<^verbatim>\<open>src/index/b_plus_tree.cpp\<close>\<close>

text \<open>
  The orchestrator \<^verbatim>\<open>BPlusTree\<close> is embedded function by function. Pages live in
  an explicit store (the buffer pool), addressed by page id: a C++ pointer to a page's
  data is the page id here, and every in-place mutation of a page is a write to the
  store. Exceptions, failed assertions and dereferences of a null page are values of
  type \<open>error\<close>. The descent loop and the recursion of \<^verbatim>\<open>InsertIntoParent\<close> can
  run forever on a malformed store, so both take fuel; a result \<open>None\<close> means that the
  fuel ran out. \<^verbatim>\<open>ToString\<close> and the two test helpers that read keys from a file
  are not embedded.
\<close>

subsection \<open>Keys, page ids, pages\<close>

text \<open>
  \<^verbatim>\<open>GenericKey<N>\<close> is set from a 64-bit integer and compared as one by
  \<^verbatim>\<open>GenericComparator<N>\<close>; keys are integers, the comparator is \<open><\<close>.
  \<^verbatim>\<open>page_id_t\<close> is a signed integer.
\<close>

type_synonym key = int
type_synonym page_id = int

text \<open>
  Modelled from the spec: the constants \<^verbatim>\<open>INVALID_PAGE_ID\<close> and
  \<^verbatim>\<open>HEADER_PAGE_ID\<close> are declared outside the source file. The spec reserves a
  sentinel page id for "no page"; the comment above \<^verbatim>\<open>UpdateRootPageId\<close> puts
  the header page at page id 0.
\<close>

definition INVALID_PAGE_ID :: page_id where
  "INVALID_PAGE_ID = - 1"

definition HEADER_PAGE_ID :: page_id where
  "HEADER_PAGE_ID = 0"

record 'v leaf_page =
  l_page_id :: page_id
  l_parent_page_id :: page_id
  l_max_size :: nat
  l_next_page_id :: page_id
  l_array :: "(key \<times> 'v) list"

record internal_page =
  i_page_id :: page_id
  i_parent_page_id :: page_id
  i_max_size :: nat
  i_array :: "(key \<times> page_id) list"

text \<open>
  A page of the pool is interpreted by the tree as a leaf, as an internal node or as the
  header page; a page fresh from \<^verbatim>\<open>NewPage\<close> is blank until \<^verbatim>\<open>Init\<close>.
\<close>

datatype 'v page =
    Blank
  | Leaf "'v leaf_page"
  | Internal internal_page
  | Header "(string \<times> page_id) list"

datatype error =
    BadAlloc
  | NullPage
  | WrongPageKind
  | OutOfRange
  | InvariantViolation
  | AssertionFailed

subsection \<open>The buffer pool manager\<close>

text \<open>
  Modelled from the spec: the class \<^verbatim>\<open>BufferPoolManager\<close> is not part of the
  source file. Section 6 of the spec gives its contract: \<^verbatim>\<open>allocate_page\<close> fails
  when no page is available, \<^verbatim>\<open>fetch_page\<close> fails on an invalid id,
  \<^verbatim>\<open>unpin_page\<close> takes the dirty flag, \<^verbatim>\<open>delete_page\<close> fails on a page that
  is still pinned. Each frame carries its pin count and dirty flag. The field
  \<open>calls\<close> is the history of the calls made to the pool, oldest first.
\<close>

record 'v frame =
  content :: "'v page"
  pin_count :: nat
  is_dirty :: bool

datatype bpm_call =
    CallNewPage page_id
  | CallFetchPage page_id
  | CallUnpinPage page_id bool
  | CallDeletePage page_id

record 'v buffer_pool =
  frames :: "(page_id \<times> 'v frame) list"
  next_page_id :: page_id
  free_pages :: nat
  calls :: "bpm_call list"

definition page_at :: "'v buffer_pool \<Rightarrow> page_id \<Rightarrow> 'v page option" where
  "page_at b pid = map_option content (map_of (frames b) pid)"

definition set_page :: "page_id \<Rightarrow> 'v page \<Rightarrow> 'v buffer_pool \<Rightarrow> 'v buffer_pool" where
  "set_page pid pg b =
     (case map_of (frames b) pid of
        None \<Rightarrow> b
      | Some f \<Rightarrow> b\<lparr>frames := AList.update pid (f\<lparr>content := pg\<rparr>) (frames b)\<rparr>)"

text \<open>An in-place mutation of the page at an address: read, modify, write back.\<close>

definition update_page ::
  "page_id \<Rightarrow> ('v page \<Rightarrow> 'v page) \<Rightarrow> 'v buffer_pool \<Rightarrow> 'v buffer_pool" where
  "update_page pid f b = (case page_at b pid of None \<Rightarrow> b | Some pg \<Rightarrow> set_page pid (f pg) b)"

definition NewPage :: "'v buffer_pool \<Rightarrow> (page_id \<times> 'v buffer_pool) option" where
  "NewPage b =
     (if free_pages b = 0 then None
      else Some (next_page_id b,
        b\<lparr>frames := AList.update (next_page_id b)
             \<lparr>content = Blank, pin_count = 1, is_dirty = False\<rparr> (frames b),
          next_page_id := next_page_id b + 1,
          free_pages := free_pages b - 1,
          calls := calls b @ [CallNewPage (next_page_id b)]\<rparr>))"

definition FetchPage :: "page_id \<Rightarrow> 'v buffer_pool \<Rightarrow> 'v buffer_pool option" where
  "FetchPage pid b =
     (case map_of (frames b) pid of
        None \<Rightarrow> None
      | Some f \<Rightarrow>
          Some (b\<lparr>frames := AList.update pid (f\<lparr>pin_count := pin_count f + 1\<rparr>) (frames b),
                  calls := calls b @ [CallFetchPage pid]\<rparr>))"

definition UnpinPage :: "page_id \<Rightarrow> bool \<Rightarrow> 'v buffer_pool \<Rightarrow> 'v buffer_pool" where
  "UnpinPage pid dirty b =
     (case map_of (frames b) pid of
        None \<Rightarrow> b\<lparr>calls := calls b @ [CallUnpinPage pid dirty]\<rparr>
      | Some f \<Rightarrow>
          b\<lparr>frames := AList.update pid
               (f\<lparr>pin_count := pin_count f - 1, is_dirty := (is_dirty f \<or> dirty)\<rparr>) (frames b),
            calls := calls b @ [CallUnpinPage pid dirty]\<rparr>)"

definition DeletePage :: "page_id \<Rightarrow> 'v buffer_pool \<Rightarrow> bool \<times> 'v buffer_pool" where
  "DeletePage pid b =
     (case map_of (frames b) pid of
        None \<Rightarrow> (True, b\<lparr>calls := calls b @ [CallDeletePage pid]\<rparr>)
      | Some f \<Rightarrow>
          if 0 < pin_count f then (False, b\<lparr>calls := calls b @ [CallDeletePage pid]\<rparr>)
          else (True, b\<lparr>frames := AList.delete pid (frames b),
                         free_pages := free_pages b + 1,
                         calls := calls b @ [CallDeletePage pid]\<rparr>))"

subsection \<open>The page abstraction\<close>

text \<open>
  Modelled from the spec: the classes \<^verbatim>\<open>BPlusTreePage\<close>,
  \<^verbatim>\<open>BPlusTreeLeafPage\<close>, \<^verbatim>\<open>BPlusTreeInternalPage\<close> and
  \<^verbatim>\<open>HeaderPage\<close> are not part of the source file. Their operations follow
  sections 3, 4.1, 4.4, 4.5, 4.9 and 6 of the spec. The maximum sizes that
  \<^verbatim>\<open>Init\<close> stores are derived from the page size, a constant of the build; they
  are parameters here. The minimum size is the spec's \<open>\<lceil>max_size / 2\<rceil>\<close>.
\<close>

definition LeafPage_Init :: "nat \<Rightarrow> page_id \<Rightarrow> page_id \<Rightarrow> 'v leaf_page" where
  "LeafPage_Init max_size pid parent =
     \<lparr>l_page_id = pid, l_parent_page_id = parent, l_max_size = max_size,
      l_next_page_id = INVALID_PAGE_ID, l_array = []\<rparr>"

definition InternalPage_Init :: "nat \<Rightarrow> page_id \<Rightarrow> page_id \<Rightarrow> internal_page" where
  "InternalPage_Init max_size pid parent =
     \<lparr>i_page_id = pid, i_parent_page_id = parent, i_max_size = max_size, i_array = []\<rparr>"

definition min_size_of :: "nat \<Rightarrow> nat" where
  "min_size_of max_size = (max_size + 1) div 2"

text \<open>
  Modelled from the spec: the accessors of \<^verbatim>\<open>BPlusTreePage\<close>, shared by both node
  kinds (section 6: \<^verbatim>\<open>size\<close>, \<^verbatim>\<open>max_size\<close>, \<^verbatim>\<open>min_size\<close>). A page that
  is not a node has none of them.
\<close>

definition GetSize :: "'v page \<Rightarrow> nat option" where
  "GetSize pg =
     (case pg of Leaf lp \<Rightarrow> Some (length (l_array lp))
               | Internal ip \<Rightarrow> Some (length (i_array ip))
               | _ \<Rightarrow> None)"

definition GetMaxSize :: "'v page \<Rightarrow> nat option" where
  "GetMaxSize pg =
     (case pg of Leaf lp \<Rightarrow> Some (l_max_size lp)
               | Internal ip \<Rightarrow> Some (i_max_size ip)
               | _ \<Rightarrow> None)"

definition GetMinSize :: "'v page \<Rightarrow> nat option" where
  "GetMinSize pg = map_option min_size_of (GetMaxSize pg)"

definition GetPageId :: "'v page \<Rightarrow> page_id option" where
  "GetPageId pg =
     (case pg of Leaf lp \<Rightarrow> Some (l_page_id lp)
               | Internal ip \<Rightarrow> Some (i_page_id ip)
               | _ \<Rightarrow> None)"

definition GetParentPageId :: "'v page \<Rightarrow> page_id option" where
  "GetParentPageId pg =
     (case pg of Leaf lp \<Rightarrow> Some (l_parent_page_id lp)
               | Internal ip \<Rightarrow> Some (i_parent_page_id ip)
               | _ \<Rightarrow> None)"

definition SetParentPageId :: "page_id \<Rightarrow> 'v page \<Rightarrow> 'v page" where
  "SetParentPageId parent pg =
     (case pg of Leaf lp \<Rightarrow> Leaf (lp\<lparr>l_parent_page_id := parent\<rparr>)
               | Internal ip \<Rightarrow> Internal (ip\<lparr>i_parent_page_id := parent\<rparr>)
               | _ \<Rightarrow> pg)"

text \<open>
  Modelled from the spec: the leaf page's ordered, duplicate-checked insert
  (section 4.3) and its removal by key (section 4.6); \<^verbatim>\<open>KeyAt\<close> and
  \<^verbatim>\<open>ValueAt\<close> of both node kinds, where a read outside the array gives nothing.
\<close>

fun insert_sorted :: "key \<Rightarrow> 'v \<Rightarrow> (key \<times> 'v) list \<Rightarrow> (key \<times> 'v) list" where
  "insert_sorted k v [] = [(k, v)]"
| "insert_sorted k v ((k', v') # xs) =
     (if k < k' then (k, v) # (k', v') # xs
      else if k = k' then (k', v') # xs
      else (k', v') # insert_sorted k v xs)"

definition LeafPage_Insert :: "key \<Rightarrow> 'v \<Rightarrow> 'v leaf_page \<Rightarrow> 'v leaf_page" where
  "LeafPage_Insert k v lp = lp\<lparr>l_array := insert_sorted k v (l_array lp)\<rparr>"

definition LeafPage_RemoveAndDeleteRecord :: "key \<Rightarrow> 'v leaf_page \<Rightarrow> 'v leaf_page" where
  "LeafPage_RemoveAndDeleteRecord k lp =
     lp\<lparr>l_array := filter (\<lambda>e. fst e \<noteq> k) (l_array lp)\<rparr>"

definition KeyAt :: "(key \<times> 'a) list \<Rightarrow> int \<Rightarrow> key option" where
  "KeyAt arr i =
     (if 0 \<le> i \<and> i < int (length arr) then Some (fst (arr ! nat i)) else None)"

definition ValueAt :: "(key \<times> 'a) list \<Rightarrow> int \<Rightarrow> 'a option" where
  "ValueAt arr i =
     (if 0 \<le> i \<and> i < int (length arr) then Some (snd (arr ! nat i)) else None)"

text \<open>
  Modelled from the spec: \<^verbatim>\<open>MoveHalfTo\<close> of a leaf page (section 4.4). The upper
  half, \<open>\<lceil>(max_size + 1) / 2\<rceil>\<close> entries, moves to the new page in order; the new page
  takes over the successor of the old one, and the old one links to the new page.
\<close>

definition moved_count :: "nat \<Rightarrow> nat" where
  "moved_count max_size = (max_size + 2) div 2"

definition LeafPage_MoveHalfTo ::
  "'v leaf_page \<Rightarrow> 'v leaf_page \<Rightarrow> 'v leaf_page \<times> 'v leaf_page" where
  "LeafPage_MoveHalfTo lp recipient =
     (let keep = length (l_array lp) - moved_count (l_max_size lp) in
      (lp\<lparr>l_array := take keep (l_array lp), l_next_page_id := l_page_id recipient\<rparr>,
       recipient\<lparr>l_array := l_array recipient @ drop keep (l_array lp),
                 l_next_page_id := l_next_page_id lp\<rparr>))"

text \<open>
  Modelled from the spec: the operations of an internal page. Slot 0 holds a key that
  no search reads. The search of section 4.1 is an upper-bound search: the child in
  front of the first separator that is strictly greater than the key, the last child
  when there is none. \<^verbatim>\<open>PopulateNewRoot\<close> and \<^verbatim>\<open>InsertNodeAfter\<close> follow
  section 4.5; the key of slot 0 of a new root is that of a zeroed page.
\<close>

fun upper_bound :: "key \<Rightarrow> (key \<times> page_id) list \<Rightarrow> page_id \<Rightarrow> page_id" where
  "upper_bound k [] cur = cur"
| "upper_bound k ((s, c) # rest) cur = (if k < s then cur else upper_bound k rest c)"

definition InternalPage_Lookup :: "key \<Rightarrow> internal_page \<Rightarrow> page_id option" where
  "InternalPage_Lookup k ip =
     (case i_array ip of
        [] \<Rightarrow> None
      | (k0, c0) # rest \<Rightarrow> Some (upper_bound k rest c0))"

fun index_of_value :: "page_id \<Rightarrow> (key \<times> page_id) list \<Rightarrow> nat option" where
  "index_of_value v [] = None"
| "index_of_value v ((k, c) # rest) =
     (if c = v then Some 0 else map_option Suc (index_of_value v rest))"

definition ValueIndex :: "page_id \<Rightarrow> internal_page \<Rightarrow> int option" where
  "ValueIndex v ip = map_option int (index_of_value v (i_array ip))"

definition PopulateNewRoot ::
  "page_id \<Rightarrow> key \<Rightarrow> page_id \<Rightarrow> internal_page \<Rightarrow> internal_page" where
  "PopulateNewRoot old_value new_key new_value ip =
     ip\<lparr>i_array := [(0, old_value), (new_key, new_value)]\<rparr>"

definition on_internal :: "(internal_page \<Rightarrow> internal_page) \<Rightarrow> 'v page \<Rightarrow> 'v page" where
  "on_internal f pg = (case pg of Internal ip \<Rightarrow> Internal (f ip) | _ \<Rightarrow> pg)"

definition InsertNodeAfter ::
  "page_id \<Rightarrow> key \<Rightarrow> page_id \<Rightarrow> internal_page \<Rightarrow> internal_page option" where
  "InsertNodeAfter old_value new_key new_value ip =
     (case index_of_value old_value (i_array ip) of
        None \<Rightarrow> None
      | Some i \<Rightarrow>
          Some (ip\<lparr>i_array := take (Suc i) (i_array ip) @ [(new_key, new_value)]
                                 @ drop (Suc i) (i_array ip)\<rparr>))"

text \<open>
  Modelled from the spec: the header page (the root directory of section 6), with the
  two operations that \<^verbatim>\<open>UpdateRootPageId\<close> calls. By the comments there,
  \<^verbatim>\<open>InsertRecord\<close> creates the record of a name that has none and
  \<^verbatim>\<open>UpdateRecord\<close> changes the record of a name that has one.
\<close>

definition InsertRecord ::
  "string \<Rightarrow> page_id \<Rightarrow> (string \<times> page_id) list \<Rightarrow> (string \<times> page_id) list" where
  "InsertRecord name root recs =
     (case map_of recs name of None \<Rightarrow> recs @ [(name, root)] | Some r \<Rightarrow> recs)"

definition UpdateRecord ::
  "string \<Rightarrow> page_id \<Rightarrow> (string \<times> page_id) list \<Rightarrow> (string \<times> page_id) list" where
  "UpdateRecord name root recs =
     (case map_of recs name of None \<Rightarrow> recs | Some r \<Rightarrow> AList.update name root recs)"

text \<open>
  Modelled from the spec: the redistribution primitives of the internal page, the
  members that \<^verbatim>\<open>Redistribute\<close> calls (section 4.9): one entry crosses the boundary
  and the separator in the shared parent is set to the first key of the node on the
  right of the boundary (the donor for \<^verbatim>\<open>MoveFirstToEndOf\<close>, the receiver for
  \<^verbatim>\<open>MoveLastToFrontOf\<close>). The parent is reached through the buffer pool. Both
  pages are read as internal pages; what the members do to the bytes of a page of
  another kind depends on the layout of the pages and is the error \<open>WrongPageKind\<close>.
\<close>

definition set_parent_key ::
  "page_id \<Rightarrow> page_id \<Rightarrow> key option \<Rightarrow> 'v buffer_pool \<Rightarrow> error + 'v buffer_pool" where
  "set_parent_key parent_id child_id new_key b =
     (case new_key of
        None \<Rightarrow> Inl OutOfRange
      | Some k \<Rightarrow>
          (case FetchPage parent_id b of
             None \<Rightarrow> Inl NullPage
           | Some b1 \<Rightarrow>
               (case page_at b1 parent_id of
                  Some (Internal p) \<Rightarrow>
                    (case index_of_value child_id (i_array p) of
                       None \<Rightarrow> Inl InvariantViolation
                     | Some i \<Rightarrow>
                         Inr (UnpinPage parent_id True
                           (set_page parent_id
                              (Internal (p\<lparr>i_array := (i_array p)[i := (k, child_id)]\<rparr>)) b1)))
                | _ \<Rightarrow> Inl WrongPageKind)))"

definition MoveFirstToEndOf ::
  "page_id \<Rightarrow> page_id \<Rightarrow> 'v buffer_pool \<Rightarrow> error + 'v buffer_pool" where
  "MoveFirstToEndOf donor_id recipient_id b =
     (case (page_at b donor_id, page_at b recipient_id) of
        (Some (Internal d), Some (Internal r)) \<Rightarrow>
          (case i_array d of
             [] \<Rightarrow> Inl OutOfRange
           | x # rest \<Rightarrow>
               set_parent_key (i_parent_page_id d) (i_page_id d) (KeyAt rest 0)
                 (set_page recipient_id (Internal (r\<lparr>i_array := i_array r @ [x]\<rparr>))
                   (set_page donor_id (Internal (d\<lparr>i_array := rest\<rparr>)) b)))
      | _ \<Rightarrow> Inl WrongPageKind)"

definition MoveLastToFrontOf ::
  "page_id \<Rightarrow> page_id \<Rightarrow> 'v buffer_pool \<Rightarrow> error + 'v buffer_pool" where
  "MoveLastToFrontOf donor_id recipient_id b =
     (case (page_at b donor_id, page_at b recipient_id) of
        (Some (Internal d), Some (Internal r)) \<Rightarrow>
          (if i_array d = [] then Inl OutOfRange
           else set_parent_key (i_parent_page_id r) (i_page_id r)
                  (Some (fst (last (i_array d))))
                  (set_page recipient_id
                     (Internal (r\<lparr>i_array := last (i_array d) # i_array r\<rparr>))
                    (set_page donor_id (Internal (d\<lparr>i_array := butlast (i_array d)\<rparr>)) b)))
      | _ \<Rightarrow> Inl WrongPageKind)"

text \<open>
  Modelled from the spec: \<^verbatim>\<open>MoveHalfTo\<close> of an internal page (section 4.4). It
  moves the upper half as the leaf page does and re-parents every moved child: each
  child is fetched, written and unpinned dirty.
\<close>

fun reparent_children ::
  "page_id list \<Rightarrow> page_id \<Rightarrow> 'v buffer_pool \<Rightarrow> error + 'v buffer_pool" where
  "reparent_children [] parent b = Inr b"
| "reparent_children (c # cs) parent b =
     (case FetchPage c b of
        None \<Rightarrow> Inl NullPage
      | Some b1 \<Rightarrow>
          (case page_at b1 c of
             None \<Rightarrow> Inl NullPage
           | Some pg \<Rightarrow>
               reparent_children cs parent
                 (UnpinPage c True (set_page c (SetParentPageId parent pg) b1))))"

definition InternalPage_MoveHalfTo ::
  "internal_page \<Rightarrow> internal_page \<Rightarrow> 'v buffer_pool
     \<Rightarrow> error + (internal_page \<times> internal_page \<times> 'v buffer_pool)" where
  "InternalPage_MoveHalfTo ip recipient b =
     (let keep = length (i_array ip) - moved_count (i_max_size ip) in
      case reparent_children (map snd (drop keep (i_array ip))) (i_page_id recipient) b of
        Inl e \<Rightarrow> Inl e
      | Inr b1 \<Rightarrow>
          Inr (ip\<lparr>i_array := take keep (i_array ip)\<rparr>,
               recipient\<lparr>i_array := i_array recipient @ drop keep (i_array ip)\<rparr>,
               b1))"

text \<open>
  Modelled from the spec: the class \<^verbatim>\<open>IndexIterator\<close> is not part of the source
  file. Section 4.10: a cursor into a leaf that advances within the leaf and follows
  \<open>next_leaf\<close> until the sentinel. A default-constructed iterator points at no page.
\<close>

record IndexIterator =
  it_page_id :: page_id
  it_index :: nat

definition IndexIterator_default :: IndexIterator where
  "IndexIterator_default = \<lparr>it_page_id = INVALID_PAGE_ID, it_index = 0\<rparr>"

fun entries_from :: "nat \<Rightarrow> 'v buffer_pool \<Rightarrow> page_id \<Rightarrow> nat \<Rightarrow> (key \<times> 'v) list" where
  "entries_from 0 b pid i = []"
| "entries_from (Suc n) b pid i =
     (if pid = INVALID_PAGE_ID then []
      else (case page_at b pid of
              Some (Leaf lp) \<Rightarrow> drop i (l_array lp) @ entries_from n b (l_next_page_id lp) 0
            | _ \<Rightarrow> []))"

definition visited :: "nat \<Rightarrow> 'v buffer_pool \<Rightarrow> IndexIterator \<Rightarrow> (key \<times> 'v) list" where
  "visited fuel b it = entries_from fuel b (it_page_id it) (it_index it)"

subsection \<open>The tree\<close>

text \<open>
  The members of \<^verbatim>\<open>BPlusTree\<close>: the index name, the root page id and the buffer
  pool. \<open>leaf_max_size\<close> and \<open>internal_max_size\<close> are what \<^verbatim>\<open>Init\<close> stores as
  the maximum size of a leaf and of an internal page.
\<close>

record 'v BPlusTree =
  index_name :: string
  root_page_id :: page_id
  buffer_pool_manager :: "'v buffer_pool"
  leaf_max_size :: nat
  internal_max_size :: nat

definition IsEmpty :: "'v BPlusTree \<Rightarrow> bool" where
  "IsEmpty t = (root_page_id t = INVALID_PAGE_ID)"

text \<open>\<^verbatim>\<open>GetValue\<close> (lines 35-40): returns false; the result vector is not touched.\<close>

definition GetValue :: "key \<Rightarrow> 'v list \<Rightarrow> 'v BPlusTree \<Rightarrow> bool \<times> 'v list \<times> 'v BPlusTree" where
  "GetValue k result t = (False, result, t)"

text \<open>
  \<^verbatim>\<open>UpdateRootPageId\<close> (lines 377-388): fetch the header page, insert or update the
  record of this index, unpin the header page dirty.
\<close>

definition UpdateRootPageId :: "bool \<Rightarrow> 'v BPlusTree \<Rightarrow> error + 'v BPlusTree" where
  "UpdateRootPageId insert_record t =
     (case FetchPage HEADER_PAGE_ID (buffer_pool_manager t) of
        None \<Rightarrow> Inl NullPage
      | Some b1 \<Rightarrow>
          (case page_at b1 HEADER_PAGE_ID of
             Some (Header recs) \<Rightarrow>
               Inr (t\<lparr>buffer_pool_manager :=
                 UnpinPage HEADER_PAGE_ID True
                   (set_page HEADER_PAGE_ID
                      (Header (if insert_record
                               then InsertRecord (index_name t) (root_page_id t) recs
                               else UpdateRecord (index_name t) (root_page_id t) recs))
                      b1)\<rparr>)
           | _ \<Rightarrow> Inl WrongPageKind))"

text \<open>
  The descent loop of \<^verbatim>\<open>InsertIntoLeaf\<close> (lines 99-105) and of \<^verbatim>\<open>Remove\<close>
  (lines 211-217), the same loop twice: while the current page is not a leaf, look the
  key up in it, unpin it clean and fetch the child. The fuel bounds the number of
  iterations. The result is the page id of the leaf reached, which is still pinned.
\<close>

fun descend ::
  "nat \<Rightarrow> key \<Rightarrow> page_id \<Rightarrow> 'v buffer_pool \<Rightarrow> (error + page_id \<times> 'v buffer_pool) option" where
  "descend fuel k page_id b =
     (case page_at b page_id of
        None \<Rightarrow> Some (Inl NullPage)
      | Some (Leaf lp) \<Rightarrow> Some (Inr (page_id, b))
      | Some (Internal ip) \<Rightarrow>
          (case fuel of
             0 \<Rightarrow> None
           | Suc n \<Rightarrow>
               (case InternalPage_Lookup k ip of
                  None \<Rightarrow> Some (Inl OutOfRange)
                | Some nxt \<Rightarrow>
                    (case FetchPage nxt (UnpinPage page_id False b) of
                       None \<Rightarrow> Some (Inl NullPage)
                     | Some b1 \<Rightarrow> descend n k nxt b1)))
      | Some _ \<Rightarrow> Some (Inl WrongPageKind))"

text \<open>
  \<^verbatim>\<open>Split\<close> (lines 128-143): a new page of the node's kind with the node's parent,
  then \<^verbatim>\<open>MoveHalfTo\<close>. Returns the id of the new page, which stays pinned.
\<close>

definition Split :: "page_id \<Rightarrow> 'v BPlusTree \<Rightarrow> error + (page_id \<times> 'v BPlusTree)" where
  "Split node t =
     (case NewPage (buffer_pool_manager t) of
        None \<Rightarrow> Inl BadAlloc
      | Some (page_id, b1) \<Rightarrow>
          (case page_at b1 node of
             Some (Leaf lp) \<Rightarrow>
               (case LeafPage_MoveHalfTo lp
                       (LeafPage_Init (leaf_max_size t) page_id (l_parent_page_id lp)) of
                  (lp1, newlp) \<Rightarrow>
                    Inr (page_id, t\<lparr>buffer_pool_manager :=
                      set_page node (Leaf lp1) (set_page page_id (Leaf newlp) b1)\<rparr>))
           | Some (Internal ip) \<Rightarrow>
               (case InternalPage_MoveHalfTo ip
                       (InternalPage_Init (internal_max_size t) page_id (i_parent_page_id ip))
                       b1 of
                  Inl e \<Rightarrow> Inl e
                | Inr (ip1, newip, b2) \<Rightarrow>
                    Inr (page_id, t\<lparr>buffer_pool_manager :=
                      set_page node (Internal ip1) (set_page page_id (Internal newip) b2)\<rparr>))
           | _ \<Rightarrow> Inl WrongPageKind))"

text \<open>
  \<^verbatim>\<open>InsertIntoParent\<close> (lines 154-191). \<open>old_node\<close> and \<open>new_node\<close> are the
  addresses of the two pages. Without a parent a new root is made: the root page id is
  set, \<^verbatim>\<open>UpdateRootPageId(false)\<close> is called, both nodes get the new parent and the
  root is populated. Otherwise the entry goes into the parent, which is split in turn
  when it overflows, with \<^verbatim>\<open>newlp->KeyAt(0)\<close> as the key that goes up. The fuel
  bounds the depth of the recursion.
\<close>

fun InsertIntoParent ::
  "nat \<Rightarrow> page_id \<Rightarrow> key \<Rightarrow> page_id \<Rightarrow> 'v BPlusTree \<Rightarrow> (error + 'v BPlusTree) option" where
  "InsertIntoParent 0 old_node k new_node t = None"
| "InsertIntoParent (Suc n) old_node k new_node t =
     (case (page_at (buffer_pool_manager t) old_node, page_at (buffer_pool_manager t) new_node) of
        (Some old_pg, Some new_pg) \<Rightarrow>
          (case (GetParentPageId old_pg, GetPageId old_pg, GetPageId new_pg) of
             (Some parentPageId, Some old_id, Some new_id) \<Rightarrow>
               if parentPageId = INVALID_PAGE_ID then
                 (case NewPage (buffer_pool_manager t) of
                    None \<Rightarrow> Some (Inl BadAlloc)
                  | Some (pp, b1) \<Rightarrow>
                      (case UpdateRootPageId False
                              (t\<lparr>root_page_id := pp,
                                 buffer_pool_manager :=
                                   set_page pp
                                     (Internal (InternalPage_Init (internal_max_size t) pp
                                        INVALID_PAGE_ID)) b1\<rparr>) of
                         Inl e \<Rightarrow> Some (Inl e)
                       | Inr t1 \<Rightarrow>
                           Some (Inr (t1\<lparr>buffer_pool_manager :=
                             UnpinPage pp True
                               (update_page pp (on_internal (PopulateNewRoot old_id k new_id))
                                  (update_page new_node (SetParentPageId pp)
                                     (update_page old_node (SetParentPageId pp)
                                        (buffer_pool_manager t1))))\<rparr>))))
               else
                 (case FetchPage parentPageId (buffer_pool_manager t) of
                    None \<Rightarrow> Some (Inl NullPage)
                  | Some b1 \<Rightarrow>
                      (case page_at b1 parentPageId of
                         Some (Internal ip) \<Rightarrow>
                           (case InsertNodeAfter old_id k new_id ip of
                              None \<Rightarrow> Some (Inl InvariantViolation)
                            | Some ip1 \<Rightarrow>
                                if length (i_array ip1) > i_max_size ip1 then
                                  (case Split parentPageId
                                          (t\<lparr>buffer_pool_manager :=
                                               set_page parentPageId (Internal ip1) b1\<rparr>) of
                                     Inl e \<Rightarrow> Some (Inl e)
                                   | Inr (newlp, t1) \<Rightarrow>
                                       (case page_at (buffer_pool_manager t1) newlp of
                                          Some (Internal nip) \<Rightarrow>
                                            (case KeyAt (i_array nip) 0 of
                                               None \<Rightarrow> Some (Inl OutOfRange)
                                             | Some up \<Rightarrow>
                                                 (case InsertIntoParent n parentPageId up newlp t1 of
                                                    None \<Rightarrow> None
                                                  | Some (Inl e) \<Rightarrow> Some (Inl e)
                                                  | Some (Inr t2) \<Rightarrow>
                                                      Some (Inr (t2\<lparr>buffer_pool_manager :=
                                                        UnpinPage parentPageId True
                                                          (UnpinPage (i_page_id nip) True
                                                             (buffer_pool_manager t2))\<rparr>))))
                                        | _ \<Rightarrow> Some (Inl WrongPageKind)))
                                else
                                  Some (Inr (t\<lparr>buffer_pool_manager :=
                                    UnpinPage parentPageId True
                                      (set_page parentPageId (Internal ip1) b1)\<rparr>)))
                       | _ \<Rightarrow> Some (Inl WrongPageKind)))
           | _ \<Rightarrow> Some (Inl WrongPageKind))
      | _ \<Rightarrow> Some (Inl NullPage))"

text \<open>
  \<^verbatim>\<open>InsertIntoLeaf\<close> (lines 93-119): fetch the root, descend, insert into the
  leaf; when the new size exceeds the maximum, split, hand the last key of the old leaf
  to \<^verbatim>\<open>InsertIntoParent\<close> and unpin the new leaf; unpin the leaf dirty; return
  whether the size changed.
\<close>

definition InsertIntoLeaf ::
  "nat \<Rightarrow> key \<Rightarrow> 'v \<Rightarrow> 'v BPlusTree \<Rightarrow> (error + bool \<times> 'v BPlusTree) option" where
  "InsertIntoLeaf fuel k v t =
     (case FetchPage (root_page_id t) (buffer_pool_manager t) of
        None \<Rightarrow> Some (Inl NullPage)
      | Some b1 \<Rightarrow>
          (case descend fuel k (root_page_id t) b1 of
             None \<Rightarrow> None
           | Some (Inl e) \<Rightarrow> Some (Inl e)
           | Some (Inr (page_id, b2)) \<Rightarrow>
               (case page_at b2 page_id of
                  Some (Leaf lp) \<Rightarrow>
                    if length (l_array (LeafPage_Insert k v lp)) > l_max_size lp then
                      (case Split page_id
                              (t\<lparr>buffer_pool_manager :=
                                   set_page page_id (Leaf (LeafPage_Insert k v lp)) b2\<rparr>) of
                         Inl e \<Rightarrow> Some (Inl e)
                       | Inr (newlp, t1) \<Rightarrow>
                           (case (page_at (buffer_pool_manager t1) page_id,
                                  page_at (buffer_pool_manager t1) newlp) of
                              (Some (Leaf oldl), Some (Leaf newl)) \<Rightarrow>
                                (case KeyAt (l_array oldl) (int (length (l_array oldl)) - 1) of
                                   None \<Rightarrow> Some (Inl OutOfRange)
                                 | Some sep \<Rightarrow>
                                     (case InsertIntoParent fuel page_id sep newlp t1 of
                                        None \<Rightarrow> None
                                      | Some (Inl e) \<Rightarrow> Some (Inl e)
                                      | Some (Inr t2) \<Rightarrow>
                                          Some (Inr
                                            (length (l_array lp)
                                               \<noteq> length (l_array (LeafPage_Insert k v lp)),
                                             t2\<lparr>buffer_pool_manager :=
                                               UnpinPage page_id True
                                                 (UnpinPage (l_page_id newl) True
                                                    (buffer_pool_manager t2))\<rparr>))))
                            | _ \<Rightarrow> Some (Inl WrongPageKind)))
                    else
                      Some (Inr
                        (length (l_array lp) \<noteq> length (l_array (LeafPage_Insert k v lp)),
                         t\<lparr>buffer_pool_manager :=
                           UnpinPage page_id True
                             (set_page page_id (Leaf (LeafPage_Insert k v lp)) b2)\<rparr>))
                | _ \<Rightarrow> Some (Inl WrongPageKind))))"

text \<open>
  \<^verbatim>\<open>StartNewTree\<close> (lines 69-83): a new page becomes the root, is initialised as a
  leaf without parent, receives the pair through \<^verbatim>\<open>InsertIntoLeaf\<close> and is
  unpinned dirty. \<^verbatim>\<open>UpdateRootPageId\<close> is not called.
\<close>

definition StartNewTree ::
  "nat \<Rightarrow> key \<Rightarrow> 'v \<Rightarrow> 'v BPlusTree \<Rightarrow> (error + 'v BPlusTree) option" where
  "StartNewTree fuel k v t =
     (if IsEmpty t then
        (case NewPage (buffer_pool_manager t) of
           None \<Rightarrow> Some (Inl BadAlloc)
         | Some (page_id, b1) \<Rightarrow>
             (case InsertIntoLeaf fuel k v
                     (t\<lparr>root_page_id := page_id,
                        buffer_pool_manager :=
                          set_page page_id
                            (Leaf (LeafPage_Init (leaf_max_size t) page_id INVALID_PAGE_ID))
                            b1\<rparr>) of
                None \<Rightarrow> None
              | Some (Inl e) \<Rightarrow> Some (Inl e)
              | Some (Inr (r, t1)) \<Rightarrow>
                  Some (Inr (t1\<lparr>buffer_pool_manager :=
                    UnpinPage page_id True (buffer_pool_manager t1)\<rparr>))))
      else Some (Inl AssertionFailed))"

text \<open>\<^verbatim>\<open>Insert\<close> (lines 52-60).\<close>

definition Insert ::
  "nat \<Rightarrow> key \<Rightarrow> 'v \<Rightarrow> 'v BPlusTree \<Rightarrow> (error + bool \<times> 'v BPlusTree) option" where
  "Insert fuel k v t =
     (if IsEmpty t then
        (case StartNewTree fuel k v t of
           None \<Rightarrow> None
         | Some (Inl e) \<Rightarrow> Some (Inl e)
         | Some (Inr t1) \<Rightarrow> Some (Inr (True, t1)))
      else InsertIntoLeaf fuel k v t)"

subsection \<open>Removal\<close>

text \<open>
  Modelled from the spec: \<^verbatim>\<open>GetInternalPage\<close> is a member that the source file
  calls and does not define. Section 9 of the spec: a parent or sibling is looked up by
  id through the buffer pool; section 6: the fetch fails on an invalid id. The caller
  dereferences the result at once, so a failed fetch is a null page.
\<close>

definition GetInternalPage :: "page_id \<Rightarrow> 'v BPlusTree \<Rightarrow> error + 'v BPlusTree" where
  "GetInternalPage pid t =
     (case FetchPage pid (buffer_pool_manager t) of
        None \<Rightarrow> Inl NullPage
      | Some b1 \<Rightarrow> Inr (t\<lparr>buffer_pool_manager := b1\<rparr>))"

text \<open>
  \<^verbatim>\<open>Redistribute\<close> (lines 309-319): both pointers are converted to pointers to
  internal pages (lines 312-313), whatever the kind of the two pages; index 0 then
  moves the neighbour's first entry to the end of the node, any other index moves the
  neighbour's last entry to its front, each with the member of the internal page.
\<close>

definition Redistribute ::
  "page_id \<Rightarrow> page_id \<Rightarrow> int \<Rightarrow> 'v BPlusTree \<Rightarrow> error + 'v BPlusTree" where
  "Redistribute neighbor_node node index t =
     (case (if index = 0
            then MoveFirstToEndOf neighbor_node node (buffer_pool_manager t)
            else MoveLastToFrontOf neighbor_node node (buffer_pool_manager t)) of
        Inl e \<Rightarrow> Inl e
      | Inr b1 \<Rightarrow> Inr (t\<lparr>buffer_pool_manager := b1\<rparr>))"

text \<open>\<^verbatim>\<open>Coalesce\<close> (lines 291-298) and \<^verbatim>\<open>AdjustRoot\<close> (lines 330-333) return false.\<close>

definition Coalesce ::
  "page_id \<Rightarrow> page_id \<Rightarrow> page_id \<Rightarrow> int \<Rightarrow> 'v BPlusTree \<Rightarrow> bool \<times> 'v BPlusTree" where
  "Coalesce neighbor_node node parent index t = (False, t)"

definition AdjustRoot :: "page_id \<Rightarrow> 'v BPlusTree \<Rightarrow> bool \<times> 'v BPlusTree" where
  "AdjustRoot old_root_node t = (False, t)"

text \<open>
  \<^verbatim>\<open>CoalesceOrRedistribute\<close> (lines 239-277). The second half, from the look at the
  right sibling on (lines 260-276), is reached both without a left sibling and with one
  that cannot give; \<open>has_left\<close> says whether \<^verbatim>\<open>leftSibling\<close> was set.
\<close>

definition CoalesceOrRedistribute_right ::
  "bool \<Rightarrow> int \<Rightarrow> internal_page \<Rightarrow> 'v BPlusTree \<Rightarrow> error + bool \<times> 'v BPlusTree" where
  "CoalesceOrRedistribute_right has_left idx parent t =
     (if idx + 1 < int (length (i_array parent)) then
        (case ValueAt (i_array parent) (idx + 1) of
           None \<Rightarrow> Inl OutOfRange
         | Some right_id \<Rightarrow>
             (case GetInternalPage right_id t of
                Inl e \<Rightarrow> Inl e
              | Inr t1 \<Rightarrow>
                  (case page_at (buffer_pool_manager t1) right_id of
                     None \<Rightarrow> Inl NullPage
                   | Some rightSibling \<Rightarrow>
                       (case (GetSize rightSibling, GetMinSize rightSibling) of
                          (Some sz, Some mn) \<Rightarrow>
                            if sz > mn then Inr (False, t1) else Inr (True, t1)
                        | _ \<Rightarrow> Inl WrongPageKind))))
      else if has_left then Inr (True, t)
      else Inl AssertionFailed)"

definition CoalesceOrRedistribute ::
  "page_id \<Rightarrow> 'v BPlusTree \<Rightarrow> error + bool \<times> 'v BPlusTree" where
  "CoalesceOrRedistribute node t =
     (case page_at (buffer_pool_manager t) node of
        None \<Rightarrow> Inl NullPage
      | Some btp \<Rightarrow>
          (case (GetParentPageId btp, GetPageId btp) of
             (Some parent_id, Some node_id) \<Rightarrow>
               (case GetInternalPage parent_id t of
                  Inl e \<Rightarrow> Inl e
                | Inr t1 \<Rightarrow>
                    (case page_at (buffer_pool_manager t1) parent_id of
                       Some (Internal parent) \<Rightarrow>
                         (case ValueIndex node_id parent of
                            None \<Rightarrow> Inl InvariantViolation
                          | Some idx \<Rightarrow>
                              if idx - 1 \<ge> 0 then
                                (case ValueAt (i_array parent) (idx - 1) of
                                   None \<Rightarrow> Inl OutOfRange
                                 | Some left_id \<Rightarrow>
                                     (case GetInternalPage left_id t1 of
                                        Inl e \<Rightarrow> Inl e
                                      | Inr t2 \<Rightarrow>
                                          (case page_at (buffer_pool_manager t2) left_id of
                                             None \<Rightarrow> Inl NullPage
                                           | Some leftSibling \<Rightarrow>
                                               (case (GetSize leftSibling, GetMinSize leftSibling) of
                                                  (Some sz, Some mn) \<Rightarrow>
                                                    if sz > mn then
                                                      (case Redistribute left_id node 0 t2 of
                                                         Inl e \<Rightarrow> Inl e
                                                       | Inr t3 \<Rightarrow> Inr (False, t3))
                                                    else
                                                      CoalesceOrRedistribute_right True idx parent t2
                                                | _ \<Rightarrow> Inl WrongPageKind))))
                              else CoalesceOrRedistribute_right False idx parent t1)
                     | _ \<Rightarrow> Inl WrongPageKind))
           | _ \<Rightarrow> Inl WrongPageKind))"

text \<open>
  \<^verbatim>\<open>Remove\<close> (lines 203-230): nothing on an empty tree; otherwise fetch the root,
  descend, remove the key from the leaf; when the size is below the minimum, call
  \<^verbatim>\<open>CoalesceOrRedistribute\<close> and, when it says so, unpin and delete the page; last,
  unpin the page dirty on every path.
\<close>

definition Remove :: "nat \<Rightarrow> key \<Rightarrow> 'v BPlusTree \<Rightarrow> (error + 'v BPlusTree) option" where
  "Remove fuel k t =
     (if IsEmpty t then Some (Inr t)
      else
        (case FetchPage (root_page_id t) (buffer_pool_manager t) of
           None \<Rightarrow> Some (Inl NullPage)
         | Some b1 \<Rightarrow>
             (case descend fuel k (root_page_id t) b1 of
                None \<Rightarrow> None
              | Some (Inl e) \<Rightarrow> Some (Inl e)
              | Some (Inr (page_id, b2)) \<Rightarrow>
                  (case page_at b2 page_id of
                     Some (Leaf lp) \<Rightarrow>
                       if length (l_array (LeafPage_RemoveAndDeleteRecord k lp))
                            < min_size_of (l_max_size lp) then
                         (case CoalesceOrRedistribute page_id
                                 (t\<lparr>buffer_pool_manager :=
                                      set_page page_id
                                        (Leaf (LeafPage_RemoveAndDeleteRecord k lp)) b2\<rparr>) of
                            Inl e \<Rightarrow> Some (Inl e)
                          | Inr (shouldRemovePage, t1) \<Rightarrow>
                              if shouldRemovePage then
                                (case DeletePage page_id
                                        (UnpinPage page_id True (buffer_pool_manager t1)) of
                                   (deletePage, b3) \<Rightarrow>
                                     if deletePage then
                                       Some (Inr (t1\<lparr>buffer_pool_manager :=
                                         UnpinPage page_id True b3\<rparr>))
                                     else Some (Inl AssertionFailed))
                              else
                                Some (Inr (t1\<lparr>buffer_pool_manager :=
                                  UnpinPage page_id True (buffer_pool_manager t1)\<rparr>)))
                       else
                         Some (Inr (t\<lparr>buffer_pool_manager :=
                           UnpinPage page_id True
                             (set_page page_id
                                (Leaf (LeafPage_RemoveAndDeleteRecord k lp)) b2)\<rparr>))
                   | _ \<Rightarrow> Some (Inl WrongPageKind)))))"

subsection \<open>Iterators and utilities\<close>

text \<open>
  \<^verbatim>\<open>Begin()\<close> (line 344) and \<^verbatim>\<open>Begin(key)\<close> (lines 351-354) return a
  default-constructed iterator; \<^verbatim>\<open>FindLeafPage\<close> (lines 363-367) returns the null
  pointer.
\<close>

definition Begin :: "'v BPlusTree \<Rightarrow> IndexIterator" where
  "Begin t = IndexIterator_default"

definition Begin_key :: "key \<Rightarrow> 'v BPlusTree \<Rightarrow> IndexIterator" where
  "Begin_key k t = IndexIterator_default"

definition FindLeafPage :: "key \<Rightarrow> bool \<Rightarrow> 'v BPlusTree \<Rightarrow> page_id option" where
  "FindLeafPage k leftMost t = None"

subsection \<open>Observations\<close>

text \<open>
  The pairs of the tree: the entries of the leaves under a page, left to right through
  the child pointers. The fuel bounds the depth.
\<close>

fun pairs_under :: "nat \<Rightarrow> 'v buffer_pool \<Rightarrow> page_id \<Rightarrow> (key \<times> 'v) list" where
  "pairs_under 0 b pid = []"
| "pairs_under (Suc n) b pid =
     (case page_at b pid of
        Some (Leaf lp) \<Rightarrow> l_array lp
      | Some (Internal ip) \<Rightarrow> concat (map (\<lambda>e. pairs_under n b (snd e)) (i_array ip))
      | _ \<Rightarrow> [])"

definition tree_pairs :: "nat \<Rightarrow> 'v BPlusTree \<Rightarrow> (key \<times> 'v) list" where
  "tree_pairs fuel t =
     (if IsEmpty t then [] else pairs_under fuel (buffer_pool_manager t) (root_page_id t))"

text \<open>The record of an index in the root directory (the header page).\<close>

definition directory_entry :: "'v BPlusTree \<Rightarrow> page_id option" where
  "directory_entry t =
     (case page_at (buffer_pool_manager t) HEADER_PAGE_ID of
        Some (Header recs) \<Rightarrow> map_of recs (index_name t)
      | _ \<Rightarrow> None)"

text \<open>
  A database that has only its header page, and the empty tree of an index on it with
  the given maximum sizes.
\<close>

definition fresh_pool :: "nat \<Rightarrow> 'v buffer_pool" where
  "fresh_pool n =
     \<lparr>frames = [(HEADER_PAGE_ID, \<lparr>content = Header [], pin_count = 0, is_dirty = False\<rparr>)],
      next_page_id = 1, free_pages = n, calls = []\<rparr>"

definition empty_tree :: "nat \<Rightarrow> nat \<Rightarrow> nat \<Rightarrow> 'v BPlusTree" where
  "empty_tree leaf_max internal_max n =
     \<lparr>index_name = ''idx'', root_page_id = INVALID_PAGE_ID,
      buffer_pool_manager = fresh_pool n,
      leaf_max_size = leaf_max, internal_max_size = internal_max\<rparr>"

text \<open>A sequence of inserts, and of removals, each on the tree the one before left.\<close>

fun insert_all ::
  "nat \<Rightarrow> (key \<times> 'v) list \<Rightarrow> 'v BPlusTree \<Rightarrow> (error + 'v BPlusTree) option" where
  "insert_all fuel [] t = Some (Inr t)"
| "insert_all fuel ((k, v) # kvs) t =
     (case Insert fuel k v t of
        None \<Rightarrow> None
      | Some (Inl e) \<Rightarrow> Some (Inl e)
      | Some (Inr (r, t1)) \<Rightarrow> insert_all fuel kvs t1)"

text \<open>Sequencing of runs: the next step on the result of a run that returned.\<close>

definition and_then ::
  "(error + 'a) option \<Rightarrow> ('a \<Rightarrow> (error + 'b) option) \<Rightarrow> (error + 'b) option" where
  "and_then r f = (case r of None \<Rightarrow> None | Some (Inl e) \<Rightarrow> Some (Inl e) | Some (Inr x) \<Rightarrow> f x)"

definition map_result :: "('a \<Rightarrow> 'b) \<Rightarrow> (error + 'a) option \<Rightarrow> (error + 'b) option" where
  "map_result f r = and_then r (\<lambda>x. Some (Inr (f x)))"

text \<open>The calls that a run made to the buffer pool, given the tree before and after.\<close>

definition calls_since :: "'v BPlusTree \<Rightarrow> 'v BPlusTree \<Rightarrow> bpm_call list" where
  "calls_since t0 t1 =
     drop (length (calls (buffer_pool_manager t0))) (calls (buffer_pool_manager t1))"

definition is_tree_page :: "'v page \<Rightarrow> bool" where
  "is_tree_page pg = (case pg of Leaf lp \<Rightarrow> True | Internal ip \<Rightarrow> True | _ \<Rightarrow> False)"

text \<open>
  The pool after the inserts of the keys 1, 2, 3, 4 into an empty tree with maximum
  size 3 (lemma \<open>example_pool_reached\<close>): the root, page 3, over the leaves 1 and 2.
  \<open>example_height\<close> is the height of its pages.
\<close>

definition example_pool :: "int buffer_pool" where
  "example_pool =
     \<lparr>frames =
        [(0, \<lparr>content = Header [], pin_count = 0, is_dirty = True\<rparr>),
         (1, \<lparr>content = Leaf \<lparr>l_page_id = 1, l_parent_page_id = 3, l_max_size = 3,
                                 l_next_page_id = 2, l_array = [(1, 10), (2, 20)]\<rparr>,
               pin_count = 0, is_dirty = True\<rparr>),
         (2, \<lparr>content = Leaf \<lparr>l_page_id = 2, l_parent_page_id = 3, l_max_size = 3,
                                 l_next_page_id = - 1, l_array = [(3, 30), (4, 40)]\<rparr>,
               pin_count = 0, is_dirty = True\<rparr>),
         (3, \<lparr>content = Internal \<lparr>i_page_id = 3, i_parent_page_id = - 1, i_max_size = 3,
                                     i_array = [(0, 1), (2, 2)]\<rparr>,
               pin_count = 0, is_dirty = True\<rparr>)],
      next_page_id = 4, free_pages = 7, calls = []\<rparr>"

definition example_height :: "page_id \<Rightarrow> nat" where
  "example_height p = (if p = 3 then 1 else 0)"



section \<open>Properties\<close>

declare descend.simps [simp del]

subsection \<open>The buffer pool keeps page contents under pinning\<close>

lemma page_at_UnpinPage: "page_at (UnpinPage p d b) = page_at b"
  by (auto simp: page_at_def UnpinPage_def update_conv' fun_eq_iff split: option.splits)

lemma page_at_FetchPage: "FetchPage p b = Some b1 \<Longrightarrow> page_at b1 = page_at b"
  by (auto simp: page_at_def FetchPage_def update_conv' fun_eq_iff split: option.splits)

lemma FetchPage_defined: "page_at b p = Some pg \<Longrightarrow> \<exists>b1. FetchPage p b = Some b1"
  by (auto simp: page_at_def FetchPage_def split: option.splits)



lemma example_pool_reached:
  "map_result (\<lambda>t. (root_page_id t, frames (buffer_pool_manager t)))
     (insert_all 2 [(1, 10), (2, 20), (3, 30), (4, 40)] (empty_tree 3 3 10))
   = Some (Inr (3, frames example_pool))"
  by code_simp

subsection \<open>Termination of the descent\<close>

text \<open>
  The induction is on the fuel. The contents of the pages, \<open>pa\<close>, do not change along
  the loop: it only unpins and fetches.
\<close>

lemma descend_aux:
  assumes step: "\<And>pid ip. pa pid = Some (Internal ip) \<Longrightarrow>
            \<exists>c pg. InternalPage_Lookup k ip = Some c \<and> h c < h pid
                  \<and> pa c = Some pg \<and> is_tree_page pg"
  shows "page_at b = pa \<Longrightarrow> pa root = Some pg \<Longrightarrow> is_tree_page pg \<Longrightarrow> h root \<le> fuel \<Longrightarrow>
           \<exists>leaf b' lp. descend fuel k root b = Some (Inr (leaf, b'))
                       \<and> page_at b' = pa \<and> pa leaf = Some (Leaf lp)"
proof (induction fuel arbitrary: root b pg)
  case 0
  show ?case
  proof (cases pg)
    case (Leaf lp)
    with 0 show ?thesis by (simp add: descend.simps)
  next
    case (Internal ip)
    with 0 step[of root ip] show ?thesis by auto
  qed (use 0 in \<open>auto simp: is_tree_page_def\<close>)
next
  case (Suc n)
  show ?case
  proof (cases pg)
    case (Leaf lp)
    with Suc.prems show ?thesis by (simp add: descend.simps)
  next
    case (Internal ip)
    with Suc.prems step[of root ip] obtain c cpg where
      c: "InternalPage_Lookup k ip = Some c" "h c < h root" "pa c = Some cpg" "is_tree_page cpg"
      by auto
    have pu: "page_at (UnpinPage root False b) = pa"
      using Suc.prems(1) by (simp add: page_at_UnpinPage)
    then obtain b1 where b1: "FetchPage c (UnpinPage root False b) = Some b1"
      using FetchPage_defined[of "UnpinPage root False b" c cpg] c(3) by auto
    have pb1: "page_at b1 = pa"
      using page_at_FetchPage[OF b1] pu by simp
    have "h c \<le> n"
      using c(2) Suc.prems(4) by simp
    from Suc.IH[OF pb1 c(3) c(4) this] obtain leaf b' lp where
      r: "descend n k c b1 = Some (Inr (leaf, b'))" "page_at b' = pa" "pa leaf = Some (Leaf lp)"
      by blast
    have "descend (Suc n) k root b = descend n k c b1"
      using Suc.prems(1,2) Internal c(1) b1 by (subst descend.simps) simp
    with r show ?thesis by auto
  qed (use Suc.prems in \<open>auto simp: is_tree_page_def\<close>)
qed

text \<open>
  C10. The descent loop of \<^verbatim>\<open>InsertIntoLeaf\<close> and \<^verbatim>\<open>Remove\<close> terminates on a
  well-formed tree: when the lookup of every internal page of the pool gives the page
  id of a tree page of strictly smaller height, the loop started at a tree page
  \<open>root\<close> returns a leaf page, and as many iterations as the height of \<open>root\<close> are
  enough.
\<close>

theorem descend_reaches_leaf:
  assumes "\<And>pid ip. page_at b pid = Some (Internal ip) \<Longrightarrow>
             \<exists>c pg. InternalPage_Lookup k ip = Some c \<and> h c < h pid
                   \<and> page_at b c = Some pg \<and> is_tree_page pg"
    and "page_at b root = Some pg"
    and "is_tree_page pg"
    and "h root \<le> fuel"
  shows "\<exists>leaf b' lp. descend fuel k root b = Some (Inr (leaf, b'))
                     \<and> page_at b' leaf = Some (Leaf lp)"
proof -
  from descend_aux[of "page_at b" k h b root pg fuel, OF assms(1) refl assms(2,3,4)]
  obtain leaf b' lp where
    "descend fuel k root b = Some (Inr (leaf, b'))" "page_at b' = page_at b"
    "page_at b leaf = Some (Leaf lp)"
    by blast
  then show ?thesis by auto
qed

theorem descend_reaches_leaf_witness:
  "example_height 3 \<le> 1 \<and>
   (\<exists>leaf b' lp. descend 1 2 3 example_pool = Some (Inr (leaf, b'))
                \<and> page_at b' leaf = Some (Leaf lp))"
proof -
  have step: "\<And>pid ip. page_at example_pool pid = Some (Internal ip) \<Longrightarrow>
             \<exists>c pg. InternalPage_Lookup 2 ip = Some c \<and> example_height c < example_height pid
                   \<and> page_at example_pool c = Some pg \<and> is_tree_page pg"
    by (auto simp: page_at_def example_pool_def example_height_def InternalPage_Lookup_def
        is_tree_page_def split: if_splits)
  have root: "page_at example_pool 3 = Some (Internal \<lparr>i_page_id = 3, i_parent_page_id = - 1,
                i_max_size = 3, i_array = [(0, 1), (2, 2)]\<rparr>)"
    by (simp add: page_at_def example_pool_def)
  have node: "is_tree_page (Internal \<lparr>i_page_id = 3, i_parent_page_id = - 1,
                i_max_size = 3, i_array = [(0, 1), (2, 2)]\<rparr> :: int page)"
    by (simp add: is_tree_page_def)
  have fuel: "example_height 3 \<le> 1"
    by (simp add: example_height_def)
  from descend_reaches_leaf[of example_pool 2 example_height 3 _ 1, OF step root node fuel] fuel
  show ?thesis by simp
qed

text \<open>
  \<^verbatim>\<open>Remove\<close> has no loop but the descent, so under the same hypotheses on the pool of
  the tree it returns: with a tree, or with an error of a later step.
\<close>

lemma Remove_returns:
  assumes "\<And>pid ip. page_at (buffer_pool_manager t) pid = Some (Internal ip) \<Longrightarrow>
             \<exists>c pg. InternalPage_Lookup k ip = Some c \<and> h c < h pid
                   \<and> page_at (buffer_pool_manager t) c = Some pg \<and> is_tree_page pg"
    and "page_at (buffer_pool_manager t) (root_page_id t) = Some pg"
    and "is_tree_page pg"
    and "h (root_page_id t) \<le> fuel"
  shows "Remove fuel k t \<noteq> None"
proof -
  obtain b1 where b1: "FetchPage (root_page_id t) (buffer_pool_manager t) = Some b1"
    using FetchPage_defined[OF assms(2)] by blast
  have pb: "page_at b1 = page_at (buffer_pool_manager t)"
    using page_at_FetchPage[OF b1] .
  from descend_aux[of "page_at (buffer_pool_manager t)" k h b1 "root_page_id t" pg fuel,
      OF assms(1) pb assms(2,3,4)]
  obtain leaf b' lp where
    "descend fuel k (root_page_id t) b1 = Some (Inr (leaf, b'))"
    "page_at b' = page_at (buffer_pool_manager t)"
    "page_at (buffer_pool_manager t) leaf = Some (Leaf lp)"
    by blast
  then show ?thesis
    using b1
    by (auto simp: Remove_def split: option.splits sum.splits if_splits prod.splits page.splits)
qed

text \<open>
  \<^verbatim>\<open>InsertIntoLeaf\<close> runs the same descent; where no leaf is full, so that the
  insert cannot overflow and \<^verbatim>\<open>InsertIntoParent\<close> is not entered, it returns too.
\<close>

lemma length_insert_sorted: "length (insert_sorted k v xs) \<le> Suc (length xs)"
  by (induction xs) auto

lemma InsertIntoLeaf_returns:
  assumes "\<And>pid ip. page_at (buffer_pool_manager t) pid = Some (Internal ip) \<Longrightarrow>
             \<exists>c pg. InternalPage_Lookup k ip = Some c \<and> h c < h pid
                   \<and> page_at (buffer_pool_manager t) c = Some pg \<and> is_tree_page pg"
    and "page_at (buffer_pool_manager t) (root_page_id t) = Some pg"
    and "is_tree_page pg"
    and "h (root_page_id t) \<le> fuel"
    and room: "\<And>pid lp. page_at (buffer_pool_manager t) pid = Some (Leaf lp) \<Longrightarrow>
             length (l_array lp) < l_max_size lp"
  shows "InsertIntoLeaf fuel k v t \<noteq> None"
proof -
  obtain b1 where b1: "FetchPage (root_page_id t) (buffer_pool_manager t) = Some b1"
    using FetchPage_defined[OF assms(2)] by blast
  have pb: "page_at b1 = page_at (buffer_pool_manager t)"
    using page_at_FetchPage[OF b1] .
  from descend_aux[of "page_at (buffer_pool_manager t)" k h b1 "root_page_id t" pg fuel,
      OF assms(1) pb assms(2,3,4)]
  obtain leaf b' lp where
    d: "descend fuel k (root_page_id t) b1 = Some (Inr (leaf, b'))"
    "page_at b' = page_at (buffer_pool_manager t)"
    "page_at (buffer_pool_manager t) leaf = Some (Leaf lp)"
    by blast
  have "length (l_array (LeafPage_Insert k v lp)) \<le> l_max_size lp"
    using room[OF d(3)] length_insert_sorted[of k v "l_array lp"]
    by (simp add: LeafPage_Insert_def)
  then show ?thesis
    using b1 d by (simp add: InsertIntoLeaf_def)
qed

subsection \<open>Lookup and iteration\<close>

text \<open>
  C1. Round-trip lookup: \<^verbatim>\<open>GetValue(k)\<close> is to return true and append the value of
  \<open>k\<close> for every key of the tree. The code returns false on every input: after the
  insert of the pair (7, 70) into an empty tree, the tree holds that pair, and
  \<^verbatim>\<open>GetValue(7)\<close> returns false and leaves the result vector empty.
\<close>

theorem GetValue_misses_inserted_key:
  "and_then (Insert 1 7 (70 :: int) (empty_tree 3 3 10))
     (\<lambda>(r, t). Some (Inr (tree_pairs 1 t, fst (GetValue 7 [] t), fst (snd (GetValue 7 [] t)))))
   = Some (Inr ([(7, 70)], False, []))"
  by code_simp

text \<open>
  C9. \<^verbatim>\<open>Begin()\<close> is to give an iterator at the smallest key, \<^verbatim>\<open>Begin(key)\<close>
  one at the first entry not below the key, and advancing is to visit the remaining
  entries in order. The code returns a default-constructed iterator from both: on the
  tree with the keys 1, 2, 3, 4 both iterators visit nothing.
\<close>

theorem Begin_visits_nothing:
  "map_result
     (\<lambda>t. (tree_pairs 2 t,
            visited 3 (buffer_pool_manager t) (Begin t),
            visited 3 (buffer_pool_manager t) (Begin_key 3 t)))
     (insert_all 2 [(1, 10), (2, 20), (3, 30), (4, 40 :: int)] (empty_tree 3 3 10))
   = Some (Inr ([(1, 10), (2, 20), (3, 30), (4, 40)], [], []))"
  by code_simp

subsection \<open>Insertion\<close>

text \<open>
  C2. An insert into an empty tree is to allocate a page, make it a leaf without parent
  and the root, insert the pair, and persist the root page id in the root directory as
  a new record; the insert returns true and the tree holds exactly the pair. The code
  does all of it but the directory: \<^verbatim>\<open>StartNewTree\<close> does not call
  \<^verbatim>\<open>UpdateRootPageId\<close>, and the index has no record in the header page afterwards.
\<close>

theorem StartNewTree_leaves_directory_empty:
  "map_result
     (\<lambda>(r, t). (r, root_page_id t, page_at (buffer_pool_manager t) 1, tree_pairs 1 t,
                 directory_entry t))
     (Insert 1 7 (70 :: int) (empty_tree 3 3 10))
   = Some (Inr (True, 1,
        Some (Leaf \<lparr>l_page_id = 1, l_parent_page_id = INVALID_PAGE_ID, l_max_size = 3,
                    l_next_page_id = INVALID_PAGE_ID, l_array = [(7, 70)]\<rparr>),
        [(7, 70)], None))"
  by code_simp







subsection \<open>Removal\<close>

text \<open>
  C4. When no sibling of an underflowing node can give an entry, the node is to be
  merged with a sibling: its entries move, the emptied page is deleted and its entry
  leaves the parent. The code moves nothing and returns true. On the tree with the
  leaves [1, 2] and [3, 4] the removal of 1 deletes page 1 with the pair (2, 20) still
  in it: the pair is lost, the right leaf is as before, and the root still points at
  the deleted page.
\<close>

theorem Remove_merge_loses_entries:
  "and_then (insert_all 2 [(1, 10), (2, 20), (3, 30), (4, 40 :: int)] (empty_tree 3 3 10))
     (\<lambda>t. map_result
        (\<lambda>t1. (tree_pairs 2 t1,
                page_at (buffer_pool_manager t1) 1,
                map_option GetSize (page_at (buffer_pool_manager t1) 2),
                page_at (buffer_pool_manager t1) 3))
        (Remove 2 1 t))
   = Some (Inr ([(3, 30), (4, 40)], None, Some (Some 2),
        Some (Internal \<lparr>i_page_id = 3, i_parent_page_id = INVALID_PAGE_ID, i_max_size = 3,
                        i_array = [(0, 1), (2, 2)]\<rparr>)))"
  by code_simp

text \<open>
  C5. When a sibling of an underflowing node holds more than its minimum, one entry is
  to move from it into the node, and both nodes are within their size bounds
  afterwards. With only a right sibling that can give, the code returns false and moves
  nothing: on the tree with the leaves [1, 2] and [3, 4, 5] (minimum size 2) the
  removal of 1 leaves the node with one entry and the sibling with three.
\<close>

theorem Remove_right_sibling_gives_nothing:
  "and_then
     (insert_all 2 [(1, 10), (2, 20), (3, 30), (4, 40), (5, 50 :: int)] (empty_tree 3 3 10))
     (\<lambda>t. map_result
        (\<lambda>t1. (min_size_of 3,
                map_option GetSize (page_at (buffer_pool_manager t1) 1),
                map_option GetSize (page_at (buffer_pool_manager t1) 2),
                tree_pairs 2 t1))
        (Remove 2 1 t))
   = Some (Inr (2, Some (Some 1), Some (Some 3), [(2, 20), (3, 30), (4, 40), (5, 50)]))"
  by code_simp

text \<open>
  C6. The removal of an absent key is to leave the tree unchanged and to complete
  without aborting. On a tree whose root is a leaf with fewer entries than the minimum
  size the code calls \<^verbatim>\<open>CoalesceOrRedistribute\<close> on the root, which has no parent:
  after the insert of the key 7, the removal of the absent key 8 dereferences a null
  page.
\<close>

theorem Remove_absent_key_aborts:
  "and_then (Insert 1 7 (70 :: int) (empty_tree 3 3 10)) (\<lambda>(r, t). Remove 1 8 t)
   = Some (Inl NullPage)"
  by code_simp

text \<open>
  C7. The root page id is to be the sentinel exactly when the tree has no entry; after
  the removal of the last key \<^verbatim>\<open>IsEmpty\<close> is to hold. The code never resets the
  root page id (lemma \<open>Remove_keeps_root\<close>), and the removal of the only key of a
  tree dereferences a null page.
\<close>

theorem Remove_last_key_aborts:
  "and_then (Insert 1 7 (70 :: int) (empty_tree 3 3 10)) (\<lambda>(r, t). Remove 1 7 t)
   = Some (Inl NullPage)"
  by code_simp

lemma GetInternalPage_root:
  "GetInternalPage p t = Inr t1 \<Longrightarrow> root_page_id t1 = root_page_id t"
  by (auto simp: GetInternalPage_def split: option.splits)

lemma Redistribute_root:
  "Redistribute a c i t = Inr t1 \<Longrightarrow> root_page_id t1 = root_page_id t"
  by (auto simp: Redistribute_def split: sum.splits)

lemma CoalesceOrRedistribute_right_root:
  "CoalesceOrRedistribute_right hl idx parent t = Inr (r, t1)
     \<Longrightarrow> root_page_id t1 = root_page_id t"
  by (auto simp: CoalesceOrRedistribute_right_def dest: GetInternalPage_root
      split: option.splits sum.splits if_splits prod.splits)

lemma CoalesceOrRedistribute_root:
  "CoalesceOrRedistribute node t = Inr (r, t1) \<Longrightarrow> root_page_id t1 = root_page_id t"
  unfolding CoalesceOrRedistribute_def
  by (auto dest!: GetInternalPage_root Redistribute_root CoalesceOrRedistribute_right_root
      split: option.splits sum.splits if_splits prod.splits page.splits)

lemma Remove_keeps_root:
  "Remove fuel k t = Some (Inr t1) \<Longrightarrow> root_page_id t1 = root_page_id t"
  unfolding Remove_def
  by (auto dest!: CoalesceOrRedistribute_root
      split: option.splits sum.splits if_splits prod.splits page.splits)

subsection \<open>Pins\<close>

text \<open>
  C8. Every page that an operation fetches is to be unpinned exactly once before the
  operation returns, dirty exactly when it was modified. On the tree with the leaves
  [1, 2] and [3, 4] the removal of 1 fetches the leaf, page 1, once and unpins it
  twice, the second time after the page is deleted; it fetches the root, page 3, twice
  and unpins it once, and fetches page 2 and never unpins it.
\<close>

theorem Remove_unpins_leaf_twice:
  "and_then (insert_all 2 [(1, 10), (2, 20), (3, 30), (4, 40 :: int)] (empty_tree 3 3 10))
     (\<lambda>t. map_result (calls_since t) (Remove 2 1 t))
   = Some (Inr [CallFetchPage 3, CallUnpinPage 3 False, CallFetchPage 1, CallFetchPage 3,
                CallFetchPage 2, CallUnpinPage 1 True, CallDeletePage 1,
                CallUnpinPage 1 True])"
  by code_simp

text \<open>
  The insert of a key that is present changes no page and unpins the leaf dirty.
\<close>

lemma Insert_duplicate_unpins_dirty:
  "and_then (Insert 1 7 (70 :: int) (empty_tree 3 3 10))
     (\<lambda>(r, t). map_result
        (\<lambda>(r1, t1). (r1, page_at (buffer_pool_manager t1) 1 = page_at (buffer_pool_manager t) 1,
                      calls_since t t1))
        (Insert 1 7 71 t))
   = Some (Inr (False, True, [CallFetchPage 1, CallUnpinPage 1 True]))"
  by code_simp

end
